theory Spec2Isabelle
  imports Complex_Main "HOL-Library.Sublist"
begin

section \<open>Python values, objects and exceptions\<close>

text \<open>
  The values that flow through \<^verbatim>\<open>sync_step.py\<close>: the Events of the wrapped
  generator, the results of \<^verbatim>\<open>json.loads\<close>, and task and project identifiers.
  A \<^verbatim>\<open>str\<close> is a \<^typ>\<open>string\<close> (code points below 256); a float is kept as the
  rational it denotes (non-finite floats are not represented); a \<^verbatim>\<open>dict\<close> with
  \<^verbatim>\<open>str\<close> keys is an association list in insertion order; \<open>PObject c b\<close> is an
  instance of any other class \<open>c\<close>, whose truth value (its \<^verbatim>\<open>__bool__\<close> or \<^verbatim>\<open>__len__\<close>,
  true by default) is \<open>b\<close>.
\<close>

datatype pyval =
    PNone
  | PBool bool
  | PInt int
  | PFloat rat
  | PStr string
  | PBytes string
  | PByteArray string
  | PList "pyval list"
  | PDict "(string \<times> pyval) list"
  | PObject string bool

text \<open>Truth value testing, as \<^verbatim>\<open>if x:\<close> and \<^verbatim>\<open>x and y\<close> do it.\<close>

fun truthy :: "pyval \<Rightarrow> bool" where
  "truthy PNone = False"
| "truthy (PBool b) = b"
| "truthy (PInt i) = (i \<noteq> 0)"
| "truthy (PFloat r) = (r \<noteq> 0)"
| "truthy (PStr s) = (s \<noteq> [])"
| "truthy (PBytes s) = (s \<noteq> [])"
| "truthy (PByteArray s) = (s \<noteq> [])"
| "truthy (PList xs) = (xs \<noteq> [])"
| "truthy (PDict kvs) = (kvs \<noteq> [])"
| "truthy (PObject c b) = b"

text \<open>
  An object seen through its attributes (\<^verbatim>\<open>hasattr\<close>, attribute access): the first
  positional argument of the wrapped function and the task-lock record.
\<close>

type_synonym pyobj = "string \<rightharpoonup> pyval"

datatype exn_class =
    JSONDecodeError
  | TypeError
  | AttributeError
  | KeyError
  | Exception_subclass string
  | BaseException_subclass string

text \<open>
  An exception is its class and \<^verbatim>\<open>str(e)\<close>. The message of an exception raised by the
  interpreter itself (a \<^verbatim>\<open>TypeError\<close>, an \<^verbatim>\<open>AttributeError\<close>) differs between Python
  versions and is never formatted by this code: it is left empty.
\<close>

datatype exn = Exn (class_of: exn_class) (message: string)



definition hasattr :: "pyobj \<Rightarrow> string \<Rightarrow> bool" where
  "hasattr obj name = (obj name \<noteq> None)"

definition getattr :: "pyobj \<Rightarrow> string \<Rightarrow> exn + pyval" where
  "getattr obj name = (case obj name of None \<Rightarrow> Inl (Exn AttributeError []) | Some v \<Rightarrow> Inr v)"

section \<open>String and container operations used by the wrapper\<close>

text \<open>\<^verbatim>\<open>str.isspace\<close> on the code points below 256.\<close>

definition isspace :: "char \<Rightarrow> bool" where
  "isspace c = (of_char c \<in> {9, 10, 11, 12, 13, 28, 29, 30, 31, 32, 133, 160 :: nat})"

definition strip :: "string \<Rightarrow> string" where
  "strip s = rev (dropWhile isspace (rev (dropWhile isspace s)))"

definition startswith :: "string \<Rightarrow> string \<Rightarrow> bool" where
  "startswith s p = (take (length p) s = p)"

text \<open>\<^verbatim>\<open>k in s\<close> for two strings: \<open>k\<close> occurs in \<open>s\<close> as a substring.\<close>

fun str_contains :: "string \<Rightarrow> string \<Rightarrow> bool" where
  "str_contains k [] = (k = [])"
| "str_contains k (c # cs) = (take (length k) (c # cs) = k \<or> str_contains k cs)"

text \<open>
  \<^verbatim>\<open>k in x\<close> for a string \<open>k\<close>: key membership on a dict, element membership on a list,
  substring on a string, \<^verbatim>\<open>TypeError\<close> on everything that is not a container of strings.
\<close>

fun py_in :: "string \<Rightarrow> pyval \<Rightarrow> exn + bool" where
  "py_in k (PDict kvs) = Inr (k \<in> set (map fst kvs))"
| "py_in k (PList xs) = Inr (PStr k \<in> set xs)"
| "py_in k (PStr s) = Inr (str_contains k s)"
| "py_in k x = Inl (Exn TypeError [])"

text \<open>\<^verbatim>\<open>list(x.keys())\<close>: only a dict has \<^verbatim>\<open>keys\<close>.\<close>

fun py_keys :: "pyval \<Rightarrow> exn + string list" where
  "py_keys (PDict kvs) = Inr (map fst kvs)"
| "py_keys x = Inl (Exn AttributeError [])"

text \<open>\<^verbatim>\<open>x[k]\<close> for a string \<open>k\<close>.\<close>

fun py_getitem :: "pyval \<Rightarrow> string \<Rightarrow> exn + pyval" where
  "py_getitem (PDict kvs) k =
     (case map_of kvs k of None \<Rightarrow> Inl (Exn KeyError k) | Some v \<Rightarrow> Inr v)"
| "py_getitem x k = Inl (Exn TypeError [])"

text \<open>
  \<^verbatim>\<open>json.loads\<close>. The parser itself is the standard library's and is a parameter
  \<open>parse\<close>, giving the parsed value or the exception raised on a \<^verbatim>\<open>str\<close>, \<^verbatim>\<open>bytes\<close> or
  \<^verbatim>\<open>bytearray\<close> argument; on any other argument \<^verbatim>\<open>json.loads\<close> raises \<^verbatim>\<open>TypeError\<close>
  before parsing.
\<close>

type_synonym parser = "pyval \<Rightarrow> exn + pyval"

fun json_loads :: "parser \<Rightarrow> pyval \<Rightarrow> exn + pyval" where
  "json_loads parse (PStr s) = parse (PStr s)"
| "json_loads parse (PBytes s) = parse (PBytes s)"
| "json_loads parse (PByteArray s) = parse (PByteArray s)"
| "json_loads parse x = Inl (Exn TypeError [])"

section \<open>Effects of the wrapper\<close>

datatype level = ERROR | WARNING

text \<open>The log records of \<^verbatim>\<open>sync_step.py\<close>, one constructor per format string, holding
  the values the format string interpolates.\<close>

datatype log_record =
    Failed_to_parse_JSON exn pyval
  | Missing_step_or_data "string list"
  | Task_lock_not_found pyval
  | Failed_to_sync_step string string string

text \<open>The dict handed to \<^verbatim>\<open>send_to_api\<close>. \<open>timestamp\<close> is the exact quotient
  \<^verbatim>\<open>time.time_ns() / 1_000_000_000\<close>, which Python rounds to a float.\<close>

record payload =
  task_id :: pyval
  step :: pyval
  data :: pyval
  timestamp :: rat

datatype effect =
    Yield pyval
  | Log level log_record
  | Call_json_loads pyval
  | Call_get_task_lock pyval
  | Create_task string payload
  | Post string payload

text \<open>What a piece of code did, and the exception it raised, if any.\<close>

type_synonym outcome = "effect list \<times> exn option"

definition after :: "effect list \<Rightarrow> outcome \<Rightarrow> outcome" where
  "after es r = (es @ fst r, snd r)"

text \<open>The collaborators as they stand while one Event is processed: the task-lock
  lookup of \<^verbatim>\<open>app.service.task\<close>, the clock, and the configuration that
  \<^verbatim>\<open>env(...)\<close> would read at that moment.\<close>

record world =
  get_task_lock_if_exists :: "pyval \<Rightarrow> pyobj option"
  time_ns :: int
  environment :: "string \<Rightarrow> string option"

text \<open>The HTTP client of \<^verbatim>\<open>send_to_api\<close>: what entering
  \<^verbatim>\<open>async with httpx.AsyncClient()\<close> raises, what \<^verbatim>\<open>client.post(url, json=data)\<close> raises,
  and what leaving the \<^verbatim>\<open>async with\<close> block raises (\<open>None\<close>: nothing).\<close>

record http =
  open_client :: "exn option"
  post :: "string \<Rightarrow> payload \<Rightarrow> exn option"
  close_client :: "exn option"

section \<open>\<^verbatim>\<open>sync_step\<close>\<close>

text \<open>\<^verbatim>\<open>sync_url = server_url + "/chat/steps" if server_url else None\<close>\<close>

definition sync_url :: "string option \<Rightarrow> string option" where
  "sync_url server_url =
     (case server_url of
        None \<Rightarrow> None
      | Some u \<Rightarrow> if u = [] then None else Some (u @ ''/chat/steps''))"

text \<open>Lines 37 to 40: the candidate JSON text of an Event.\<close>

fun value_json_str :: "pyval \<Rightarrow> pyval" where
  "value_json_str (PStr s) =
     (if startswith s ''data: '' then PStr (strip (drop (length ''data: '') s)) else PStr s)"
| "value_json_str v = v"

text \<open>Line 49: \<^verbatim>\<open>"step" not in json_data or "data" not in json_data\<close>, left to right.\<close>

definition missing_step_or_data :: "pyval \<Rightarrow> exn + bool" where
  "missing_step_or_data json_data =
     (case py_in ''step'' json_data of
        Inl e \<Rightarrow> Inl e
      | Inr has_step \<Rightarrow>
          if \<not> has_step then Inr True
          else (case py_in ''data'' json_data of
                  Inl e \<Rightarrow> Inl e
                | Inr has_data \<Rightarrow> Inr (\<not> has_data)))"

text \<open>Line 55: \<^verbatim>\<open>args[0] if args and hasattr(args[0], 'task_id') else None\<close>\<close>

fun chat_of :: "pyobj list \<Rightarrow> pyobj option" where
  "chat_of [] = None"
| "chat_of (a # rest) = (if hasattr a ''task_id'' then Some a else None)"

text \<open>Lines 56 to 65: the task identifier, with the lookup and the warning it causes.\<close>

definition resolve_task_id :: "world \<Rightarrow> pyobj option \<Rightarrow> effect list \<times> (exn + pyval)" where
  "resolve_task_id w chat =
     (case chat of
        None \<Rightarrow> ([], Inr PNone)
      | Some c \<Rightarrow>
          (case getattr c ''project_id'' of
             Inl e \<Rightarrow> ([], Inl e)
           | Inr pid \<Rightarrow>
               (case get_task_lock_if_exists w pid of
                  Some task_lock \<Rightarrow>
                    ([Call_get_task_lock pid],
                     case task_lock ''current_task_id'' of
                       None \<Rightarrow> getattr c ''task_id''
                     | Some cur \<Rightarrow> if truthy cur then Inr cur else getattr c ''task_id'')
                | None \<Rightarrow>
                    ([Call_get_task_lock pid, Log WARNING (Task_lock_not_found pid)],
                     getattr c ''task_id''))))"

text \<open>Lines 67 to 78: the dispatch, scheduled and not awaited.\<close>

definition mirror :: "world \<Rightarrow> string \<Rightarrow> pyval \<Rightarrow> pyval \<Rightarrow> outcome" where
  "mirror w url tid json_data =
     (if truthy tid then
        (case py_getitem json_data ''step'' of
           Inl e \<Rightarrow> ([], Some e)
         | Inr s \<Rightarrow>
             (case py_getitem json_data ''data'' of
                Inl e \<Rightarrow> ([], Some e)
              | Inr d \<Rightarrow>
                  ([Create_task url
                      \<lparr>task_id = tid, step = s, data = d,
                       timestamp = of_int (time_ns w) / 1000000000\<rparr>], None)))
      else ([], None))"

text \<open>Lines 54 to 79: an Event whose JSON has passed the check of line 49.\<close>

definition correlate_and_mirror ::
    "world \<Rightarrow> string \<Rightarrow> pyobj list \<Rightarrow> pyval \<Rightarrow> pyval \<Rightarrow> outcome" where
  "correlate_and_mirror w url args json_data v =
     (case resolve_task_id w (chat_of args) of
        (es, Inl e) \<Rightarrow> (es, Some e)
      | (es, Inr tid) \<Rightarrow>
          after es
            (case mirror w url tid json_data of
               (ds, Some e) \<Rightarrow> (ds, Some e)
             | (ds, None) \<Rightarrow> (ds @ [Yield v], None)))"

text \<open>Lines 33 to 79: the body of the \<^verbatim>\<open>async for\<close> loop for one Event \<open>v\<close>.
  Line 33 tests \<^verbatim>\<open>not server_url\<close>, which holds exactly when \<open>sync_url\<close> is \<^verbatim>\<open>None\<close>.\<close>

definition loop_body ::
    "parser \<Rightarrow> world \<Rightarrow> string option \<Rightarrow> pyobj list \<Rightarrow> pyval \<Rightarrow> outcome" where
  "loop_body parse w server_url args v =
     (case sync_url server_url of
        None \<Rightarrow> ([Yield v], None)
      | Some url \<Rightarrow>
          after [Call_json_loads (value_json_str v)]
            (case json_loads parse (value_json_str v) of
               Inl e \<Rightarrow>
                 if class_of e = JSONDecodeError
                 then ([Log ERROR (Failed_to_parse_JSON e (value_json_str v)), Yield v], None)
                 else ([], Some e)
             | Inr json_data \<Rightarrow>
                 (case missing_step_or_data json_data of
                    Inl e \<Rightarrow> ([], Some e)
                  | Inr True \<Rightarrow>
                      (case py_keys json_data of
                         Inl e \<Rightarrow> ([], Some e)
                       | Inr ks \<Rightarrow> ([Log ERROR (Missing_step_or_data ks), Yield v], None))
                  | Inr False \<Rightarrow> correlate_and_mirror w url args json_data v)))"

text \<open>The \<^verbatim>\<open>async for\<close> loop over the Events of \<^verbatim>\<open>func(*args, **kwargs)\<close>; \<open>ws i\<close> is
  the world while the Event at position \<open>i\<close> is processed. An exception ends the loop.\<close>

fun for_each ::
    "parser \<Rightarrow> (nat \<Rightarrow> world) \<Rightarrow> string option \<Rightarrow> pyobj list \<Rightarrow> nat \<Rightarrow> pyval list \<Rightarrow> outcome"
where
  "for_each parse ws server_url args i [] = ([], None)"
| "for_each parse ws server_url args i (v # vs) =
     (case loop_body parse (ws i) server_url args v of
        (es, Some e) \<Rightarrow> (es, Some e)
      | (es, None) \<Rightarrow> after es (for_each parse ws server_url args (Suc i) vs))"

text \<open>Lines 29 to 32: \<^verbatim>\<open>wrapper\<close> reads \<^verbatim>\<open>env("SERVER_URL")\<close> when it starts running,
  before the first Event; \<open>env\<close> is the configuration at that moment. The loop uses the
  value read then and never reads the \<open>environment\<close> of the worlds \<open>ws i\<close>.\<close>

definition wrapper ::
    "(pyobj list \<Rightarrow> 'kw \<Rightarrow> pyval list) \<Rightarrow> parser \<Rightarrow> (string \<Rightarrow> string option) \<Rightarrow>
     (nat \<Rightarrow> world) \<Rightarrow> pyobj list \<Rightarrow> 'kw \<Rightarrow> outcome" where
  "wrapper func parse env ws args kwargs =
     for_each parse ws (env ''SERVER_URL'') args 0 (func args kwargs)"

text \<open>Line 28 and line 81: the decorator returns the closure and reads nothing.\<close>

definition sync_step ::
    "(pyobj list \<Rightarrow> 'kw \<Rightarrow> pyval list) \<Rightarrow> parser \<Rightarrow> (string \<Rightarrow> string option) \<Rightarrow>
     (nat \<Rightarrow> world) \<Rightarrow> pyobj list \<Rightarrow> 'kw \<Rightarrow> outcome" where
  "sync_step func = wrapper func"


section \<open>\<^verbatim>\<open>traceroot_wrapper\<close>\<close>

text \<open>Lines 50 to 89: the module picks its exports once, on
  \<^verbatim>\<open>TRACEROOT_AVAILABLE and traceroot.init()\<close>; \<open>traceroot_trace\<close> is the third-party
  decorator factory.\<close>

definition is_enabled :: "bool \<Rightarrow> bool \<Rightarrow> bool" where
  "is_enabled TRACEROOT_AVAILABLE init_ok = (TRACEROOT_AVAILABLE \<and> init_ok)"

definition trace ::
    "bool \<Rightarrow> bool \<Rightarrow> ('a \<Rightarrow> 'k \<Rightarrow> 'f \<Rightarrow> 'f) \<Rightarrow> 'a \<Rightarrow> 'k \<Rightarrow> 'f \<Rightarrow> 'f" where
  "trace TRACEROOT_AVAILABLE init_ok traceroot_trace =
     (if TRACEROOT_AVAILABLE \<and> init_ok then traceroot_trace
      else (\<lambda>args kwargs. (\<lambda>func. func)))"

section \<open>Observations on an outcome\<close>

fun yields :: "effect list \<Rightarrow> pyval list" where
  "yields [] = []"
| "yields (Yield v # es) = v # yields es"
| "yields (e # es) = yields es"

fun dispatches :: "effect list \<Rightarrow> (string \<times> payload) list" where
  "dispatches [] = []"
| "dispatches (Create_task u p # es) = (u, p) # dispatches es"
| "dispatches (e # es) = dispatches es"

section \<open>Conditions under which one Event cannot make the wrapper raise\<close>

text \<open>\<^verbatim>\<open>json.loads\<close> on the candidate text raises \<^verbatim>\<open>JSONDecodeError\<close> or returns a JSON
  object.\<close>

definition parses_or_fails_cleanly :: "parser \<Rightarrow> pyval \<Rightarrow> bool" where
  "parses_or_fails_cleanly parse v =
     (case json_loads parse (value_json_str v) of
        Inl e \<Rightarrow> class_of e = JSONDecodeError
      | Inr (PDict kvs) \<Rightarrow> True
      | Inr other \<Rightarrow> False)"

text \<open>The first positional argument, when line 55 selects it, has a \<^verbatim>\<open>project_id\<close>.\<close>

definition source_has_project :: "pyobj list \<Rightarrow> bool" where
  "source_has_project args =
     (case chat_of args of None \<Rightarrow> True | Some c \<Rightarrow> hasattr c ''project_id'')"

section \<open>Example inputs\<close>

text \<open>\<^verbatim>\<open>json.loads\<close> on the texts of the examples below: three JSON texts, and
  \<^verbatim>\<open>JSONDecodeError\<close> on text that is not JSON.\<close>

definition json_loads_examples :: parser where
  \<open>json_loads_examples t =
     (if t = PStr ''{"step": "plan", "data": {"x": 1}}''
      then Inr (PDict [(''step'', PStr ''plan''), (''data'', PDict [(''x'', PInt 1)])])
      else if t = PStr ''{"step": "plan"}''
      then Inr (PDict [(''step'', PStr ''plan'')])
      else if t = PStr ''[1]''
      then Inr (PList [PInt 1])
      else Inl (Exn JSONDecodeError ''Expecting value: line 1 column 1 (char 0)''))\<close>

definition sink_env :: "string \<Rightarrow> string option" where
  "sink_env name = (if name = ''SERVER_URL'' then Some ''http://sink'' else None)"

definition no_sink_env :: "string \<Rightarrow> string option" where
  "no_sink_env name = None"

text \<open>Three states of the task-lock store for project \<^verbatim>\<open>P1\<close>: no record, a record whose
  current task is \<^verbatim>\<open>T2\<close>, a record whose current task is empty. The configuration still
  names the sink in all three; in \<open>sink_removed\<close> it no longer does.\<close>

definition no_locks :: world where
  "no_locks = \<lparr>get_task_lock_if_exists = (\<lambda>pid. None), time_ns = 1700000000500000000,
     environment = sink_env\<rparr>"

definition lock_T2 :: world where
  "lock_T2 = \<lparr>get_task_lock_if_exists =
       (\<lambda>pid. if pid = PStr ''P1'' then Some [''current_task_id'' \<mapsto> PStr ''T2''] else None),
     time_ns = 1700000000500000000, environment = sink_env\<rparr>"

definition lock_idle :: world where
  "lock_idle = \<lparr>get_task_lock_if_exists =
       (\<lambda>pid. if pid = PStr ''P1'' then Some [''current_task_id'' \<mapsto> PStr []] else None),
     time_ns = 1700000000500000000, environment = sink_env\<rparr>"

definition sink_removed :: world where
  "sink_removed = \<lparr>get_task_lock_if_exists = (\<lambda>pid. None), time_ns = 1700000000500000000,
     environment = no_sink_env\<rparr>"

text \<open>First positional arguments: a chat of task \<^verbatim>\<open>T1\<close> in project \<^verbatim>\<open>P1\<close>, objects
  with one of the two attributes only, and a chat whose own task id is empty.\<close>

definition chat_T1 :: pyobj where
  "chat_T1 = [''task_id'' \<mapsto> PStr ''T1'', ''project_id'' \<mapsto> PStr ''P1'']"

definition task_only :: pyobj where
  "task_only = [''task_id'' \<mapsto> PStr ''T1'']"

definition project_only :: pyobj where
  "project_only = [''project_id'' \<mapsto> PStr ''P1'']"

definition anonymous_chat :: pyobj where
  "anonymous_chat = [''task_id'' \<mapsto> PStr [], ''project_id'' \<mapsto> PStr ''P1'']"

text \<open>Two generators: one of server-sent-event lines, one whose first Event is a dict.\<close>

definition plan_stream :: "pyobj list \<Rightarrow> unit \<Rightarrow> pyval list" where
  \<open>plan_stream args kwargs =
     [PStr ''data: {"step": "plan", "data": {"x": 1}}'', PStr ''not json'']\<close>

definition dict_stream :: "pyobj list \<Rightarrow> unit \<Rightarrow> pyval list" where
  \<open>dict_stream args kwargs =
     [PDict [(''step'', PStr ''plan''), (''data'', PInt 1)], PStr ''not json'']\<close>

text \<open>The state of the collaborators does not change while the stream runs.\<close>

definition always :: "world \<Rightarrow> nat \<Rightarrow> world" where
  "always w i = w"

text \<open>The server-sent-event line of the first example as the producer writes it, with the
  two newlines that end an event.\<close>

definition plan_line :: pyval where
  \<open>plan_line = PStr (''data: {"step": "plan", "data": {"x": 1}}'' @ [CHR 0x0A, CHR 0x0A])\<close>

text \<open>A sink that refuses the connection, a request that is cancelled while it is awaited,
  and the payload of the first example.\<close>

definition connection_refused :: http where
  "connection_refused =
     \<lparr>open_client = None,
      post = (\<lambda>url d. Some (Exn (Exception_subclass ''ConnectError'')
                               ''All connection attempts failed'')),
      close_client = None\<rparr>"

definition request_cancelled :: http where
  "request_cancelled =
     \<lparr>open_client = None,
      post = (\<lambda>url d. Some (Exn (BaseException_subclass ''CancelledError'') [])),
      close_client = None\<rparr>"

definition plan_payload :: payload where
  "plan_payload =
     \<lparr>task_id = PStr ''T1'', step = PStr ''plan'', data = PDict [(''x'', PInt 1)],
      timestamp = 1700000000500000000 / 1000000000\<rparr>"

section \<open>Auxiliary facts\<close>

lemmas wrapper_defs =
  sync_step_def wrapper_def loop_body_def sync_url_def startswith_def strip_def isspace_def
  after_def missing_step_or_data_def correlate_and_mirror_def resolve_task_id_def
  hasattr_def getattr_def mirror_def

lemmas example_defs =
  json_loads_examples_def sink_env_def no_sink_env_def no_locks_def chat_T1_def lock_T2_def
  lock_idle_def task_only_def project_only_def anonymous_chat_def plan_stream_def dict_stream_def
  always_def connection_refused_def request_cancelled_def plan_payload_def sink_removed_def
  plan_line_def

lemma fst_after [simp]: "fst (after es r) = es @ fst r"
  by (simp add: after_def)

lemma snd_after [simp]: "snd (after es r) = snd r"
  by (simp add: after_def)

lemma yields_append [simp]: "yields (xs @ ys) = yields xs @ yields ys"
  by (induction xs rule: yields.induct) simp_all

lemma dispatches_append [simp]: "dispatches (xs @ ys) = dispatches xs @ dispatches ys"
  by (induction xs rule: dispatches.induct) simp_all

lemma resolve_quiet:
  "resolve_task_id w chat = (es, r) \<Longrightarrow> yields es = [] \<and> dispatches es = []"
  by (auto simp: resolve_task_id_def split: option.splits sum.splits)

lemma mirror_quiet:
  "mirror w url tid j = (ds, r) \<Longrightarrow> yields ds = [] \<and> length (dispatches ds) \<le> 1"
  by (auto simp: mirror_def split: if_splits sum.splits)

lemma correlate_yields:
  "yields (fst (correlate_and_mirror w url args j v)) =
     (if snd (correlate_and_mirror w url args j v) = None then [v] else [])"
  by (auto simp: correlate_and_mirror_def dest!: resolve_quiet mirror_quiet
      split: prod.splits sum.splits option.splits)

text \<open>One pass of the loop body yields its Event exactly when it does not raise.\<close>

lemma loop_body_yields:
  "yields (fst (loop_body parse w su args v)) =
     (if snd (loop_body parse w su args v) = None then [v] else [])"
  by (auto simp: loop_body_def correlate_yields split: option.splits sum.splits bool.splits)

lemma for_each_yields:
  "prefix (yields (fst (for_each parse ws su args i vs))) vs \<and>
   (snd (for_each parse ws su args i vs) = None \<longrightarrow>
      yields (fst (for_each parse ws su args i vs)) = vs)"
proof (induction vs arbitrary: i)
  case Nil
  show ?case by simp
next
  case (Cons v vs)
  obtain es r where lb: "loop_body parse (ws i) su args v = (es, r)"
    by (cases "loop_body parse (ws i) su args v")
  have y: "yields es = (if r = None then [v] else [])"
    using loop_body_yields [of parse "ws i" su args v] lb by simp
  show ?case
  proof (cases r)
    case None
    then show ?thesis using lb y Cons.IH [of "Suc i"] by simp
  next
    case (Some e)
    then show ?thesis using lb y by simp
  qed
qed

lemma py_getitem_dict:
  "k \<in> set (map fst kvs) \<Longrightarrow> \<exists>x. py_getitem (PDict kvs) k = Inr x"
  by (cases "map_of kvs k") (auto simp: map_of_eq_None_iff)

lemma mirror_dict_ok:
  "missing_step_or_data (PDict kvs) = Inr False \<Longrightarrow> snd (mirror w url tid (PDict kvs)) = None"
  using py_getitem_dict [of "''step''" kvs] py_getitem_dict [of "''data''" kvs]
  by (auto simp: mirror_def missing_step_or_data_def split: if_splits sum.splits)

lemma chat_of_task_id: "chat_of args = Some c \<Longrightarrow> \<exists>t. c ''task_id'' = Some t"
  by (cases args) (auto simp: hasattr_def split: if_splits)

lemma resolve_ok:
  "source_has_project args \<Longrightarrow> \<exists>es tid. resolve_task_id w (chat_of args) = (es, Inr tid)"
  by (auto simp: source_has_project_def resolve_task_id_def getattr_def hasattr_def
      dest!: chat_of_task_id split: option.splits)

lemma correlate_ok:
  assumes "source_has_project args" and "missing_step_or_data (PDict kvs) = Inr False"
  shows "snd (correlate_and_mirror w url args (PDict kvs) v) = None"
proof -
  obtain es tid where r: "resolve_task_id w (chat_of args) = (es, Inr tid)"
    using resolve_ok [OF assms(1)] by blast
  obtain ds where m: "mirror w url tid (PDict kvs) = (ds, None)"
    using mirror_dict_ok [OF assms(2), of w url tid]
    by (cases "mirror w url tid (PDict kvs)") simp
  show ?thesis by (simp add: correlate_and_mirror_def r m)
qed

lemma missing_dict: "\<exists>b. missing_step_or_data (PDict kvs) = Inr b"
  by (auto simp: missing_step_or_data_def)

lemma loop_body_ok:
  assumes "parses_or_fails_cleanly parse v" and "source_has_project args"
  shows "snd (loop_body parse w su args v) = None"
proof (cases "sync_url su")
  case None
  then show ?thesis by (simp add: loop_body_def)
next
  case (Some url)
  show ?thesis
  proof (cases "json_loads parse (value_json_str v)")
    case (Inl e)
    then show ?thesis using assms(1) Some
      by (simp add: loop_body_def parses_or_fails_cleanly_def)
  next
    case (Inr j)
    then obtain kvs where j: "j = PDict kvs"
      using assms(1) by (cases j) (simp_all add: parses_or_fails_cleanly_def)
    obtain b where b: "missing_step_or_data (PDict kvs) = Inr b"
      using missing_dict by blast
    show ?thesis
    proof (cases b)
      case True
      then show ?thesis using Some Inr j b by (simp add: loop_body_def)
    next
      case False
      then show ?thesis using Some Inr j b correlate_ok [OF assms(2), of kvs w url v]
        by (simp add: loop_body_def)
    qed
  qed
qed

lemma loop_body_no_sink: "sync_url su = None \<Longrightarrow> loop_body parse w su args v = ([Yield v], None)"
  by (simp add: loop_body_def)

lemma for_each_no_sink:
  "sync_url su = None \<Longrightarrow> for_each parse ws su args i vs = (map Yield vs, None)"
  by (induction vs arbitrary: i) (simp_all add: loop_body_no_sink after_def)

lemma for_each_ok:
  "\<forall>v \<in> set vs. parses_or_fails_cleanly parse v \<Longrightarrow> source_has_project args \<Longrightarrow>
   snd (for_each parse ws su args i vs) = None"
proof (induction vs arbitrary: i)
  case Nil
  show ?case by simp
next
  case (Cons v vs)
  have "snd (loop_body parse (ws i) su args v) = None"
    using Cons.prems by (simp add: loop_body_ok)
  then obtain es where "loop_body parse (ws i) su args v = (es, None)"
    by (cases "loop_body parse (ws i) su args v") simp
  then show ?case using Cons by simp
qed

lemma loop_body_dispatch_le1: "length (dispatches (fst (loop_body parse w su args v))) \<le> 1"
proof -
  have c: "length (dispatches (fst (correlate_and_mirror w url args j v))) \<le> 1" for url j
  proof (cases "resolve_task_id w (chat_of args)")
    case (Pair es r)
    then have q: "dispatches es = []" using resolve_quiet by blast
    show ?thesis
    proof (cases r)
      case (Inl e)
      then show ?thesis using Pair q by (simp add: correlate_and_mirror_def)
    next
      case (Inr tid)
      obtain ds m where m: "mirror w url tid j = (ds, m)"
        by (cases "mirror w url tid j")
      then have "length (dispatches ds) \<le> 1" using mirror_quiet by blast
      then show ?thesis using Pair q Inr m
        by (cases m) (simp_all add: correlate_and_mirror_def)
    qed
  qed
  show ?thesis
    by (auto simp: loop_body_def c [simplified] split: option.splits sum.splits bool.splits)
qed

text \<open>The whole effect of the loop body on an Event whose JSON object has both keys,
  once the task identifier is resolved.\<close>

lemma loop_body_mirrorable:
  assumes "sync_url server_url = Some url"
    and "json_loads parse (value_json_str v) = Inr (PDict kvs)"
    and "map_of kvs ''step'' = Some s" and "map_of kvs ''data'' = Some d"
    and "resolve_task_id w (chat_of args) = (es, Inr tid)"
  shows "loop_body parse w server_url args v =
           (Call_json_loads (value_json_str v) # es @
              (if truthy tid
               then [Create_task url \<lparr>task_id = tid, step = s, data = d,
                                       timestamp = of_int (time_ns w) / 1000000000\<rparr>]
               else []) @ [Yield v], None)"
proof -
  have "''step'' \<in> set (map fst kvs)" and "''data'' \<in> set (map fst kvs)"
    using assms(3,4) by (auto dest!: map_of_SomeD intro: rev_image_eqI)
  then have "missing_step_or_data (PDict kvs) = Inr False"
    by (simp add: missing_step_or_data_def)
  then show ?thesis
    using assms by (simp add: loop_body_def correlate_and_mirror_def mirror_def after_def)
qed

text \<open>The first example, evaluated step by step.\<close>

lemma plan_event_parses:
  \<open>json_loads json_loads_examples
      (value_json_str (PStr ''data: {"step": "plan", "data": {"x": 1}}'')) =
    Inr (PDict [(''step'', PStr ''plan''), (''data'', PDict [(''x'', PInt 1)])])\<close>
  by (simp add: startswith_def strip_def isspace_def json_loads_examples_def)

lemma sink_url: "sync_url (Some ''http://sink'') = Some ''http://sink/chat/steps''"
  by (simp add: sync_url_def)

lemma plan_fields:
  "map_of [(''step'', PStr ''plan''), (''data'', PDict [(''x'', PInt 1)])] ''step'' =
     Some (PStr ''plan'')"
  "map_of [(''step'', PStr ''plan''), (''data'', PDict [(''x'', PInt 1)])] ''data'' =
     Some (PDict [(''x'', PInt 1)])"
  by simp_all

lemma dropWhile_through:
  "\<forall>c \<in> set l. P c \<Longrightarrow> \<not> P x \<Longrightarrow> dropWhile P (l @ x # xs) = x # xs"
  by (induction l) simp_all

lemma strip_surrounded:
  assumes "\<forall>c \<in> set l. isspace c" and "\<forall>c \<in> set r. isspace c"
    and "t \<noteq> []" and "\<not> isspace (hd t)" and "\<not> isspace (last t)"
  shows "strip (l @ t @ r) = t"
proof -
  obtain x xs where t: "t = x # xs"
    using assms(3) by (cases t) auto
  have a: "dropWhile isspace (l @ t @ r) = t @ r"
    using dropWhile_through [OF assms(1), of x "xs @ r"] assms(4) t by simp
  obtain y ys where rt: "rev t = y # ys"
    using assms(3) by (cases "rev t") auto
  then have y: "y = last t"
    using assms(3) hd_rev [of t] by simp
  have "\<forall>c \<in> set (rev r). isspace c"
    using assms(2) by simp
  then have "dropWhile isspace (rev r @ y # ys) = y # ys"
    using dropWhile_through [of "rev r" isspace y ys] assms(5) y by simp
  then have "dropWhile isspace (rev (t @ r)) = rev t"
    by (simp add: rt)
  then show ?thesis
    by (simp add: strip_def a)
qed

lemma resolve_task_id_cong:
  "get_task_lock_if_exists w' = get_task_lock_if_exists w \<Longrightarrow>
   resolve_task_id w' chat = resolve_task_id w chat"
  by (auto simp: resolve_task_id_def split: option.splits sum.splits)

lemma mirror_cong: "time_ns w' = time_ns w \<Longrightarrow> mirror w' url tid j = mirror w url tid j"
  by (auto simp: mirror_def split: sum.splits)

lemma correlate_cong:
  assumes "get_task_lock_if_exists w' = get_task_lock_if_exists w" and "time_ns w' = time_ns w"
  shows "correlate_and_mirror w' = correlate_and_mirror w"
proof -
  have r: "resolve_task_id w' = resolve_task_id w"
    by (intro ext) (rule resolve_task_id_cong [OF assms(1)])
  have m: "mirror w' = mirror w"
    by (intro ext) (rule mirror_cong [OF assms(2)])
  show ?thesis
    by (intro ext) (simp only: correlate_and_mirror_def r m)
qed

lemma loop_body_cong:
  assumes "get_task_lock_if_exists w' = get_task_lock_if_exists w" and "time_ns w' = time_ns w"
  shows "loop_body parse w' su args v = loop_body parse w su args v"
  unfolding loop_body_def correlate_cong [OF assms] by (rule refl)

lemma for_each_cong:
  "\<forall>i. get_task_lock_if_exists (ws' i) = get_task_lock_if_exists (ws i) \<and>
        time_ns (ws' i) = time_ns (ws i) \<Longrightarrow>
   for_each parse ws' su args i vs = for_each parse ws su args i vs"
proof (induction vs arbitrary: i)
  case Nil
  show ?case by simp
next
  case (Cons v vs)
  have "loop_body parse (ws' i) su args v = loop_body parse (ws i) su args v"
    using Cons.prems by (intro loop_body_cong) simp_all
  then show ?case
    using Cons.IH [OF Cons.prems] by simp
qed




lemma plan_line_parses:
  \<open>json_loads json_loads_examples (value_json_str plan_line) =
    Inr (PDict [(''step'', PStr ''plan''), (''data'', PDict [(''x'', PInt 1)])])\<close>
  by (simp add: plan_line_def startswith_def strip_def isspace_def json_loads_examples_def)


section \<open>The primary stream\<close>

text \<open>
  What every run of the wrapper keeps: the Events it yields are a prefix of the Events of
  the unwrapped stream, unchanged and in order, and all of them if the wrapper does not
  raise.
\<close>

lemma wrapper_yields_prefix:
  "prefix (yields (fst (sync_step func parse env ws args kwargs))) (func args kwargs) \<and>
   (snd (sync_step func parse env ws args kwargs) = None \<longrightarrow>
      yields (fst (sync_step func parse env ws args kwargs)) = func args kwargs) \<and>
   (sync_url (env ''SERVER_URL'') = None \<or>
    (\<forall>v \<in> set (func args kwargs). parses_or_fails_cleanly parse v) \<and> source_has_project args \<longrightarrow>
      snd (sync_step func parse env ws args kwargs) = None)"
  using for_each_yields [of parse ws "env ''SERVER_URL''" args 0 "func args kwargs"]
    for_each_no_sink [of "env ''SERVER_URL''" parse ws args 0 "func args kwargs"]
    for_each_ok [of "func args kwargs" parse args ws "env ''SERVER_URL''" 0]
  by (auto simp: sync_step_def wrapper_def)

text \<open>
  C1 requires the wrapped stream to yield exactly the Events of the unwrapped stream,
  whatever the Events are. The code does not: with a sink configured, the generator
  \<open>dict_stream\<close> yields a dict and then a line of text; line 37 sends the dict to
  \<^verbatim>\<open>json.loads\<close> as it is, \<^verbatim>\<open>json.loads\<close> raises \<^verbatim>\<open>TypeError\<close>, line 44 catches
  \<^verbatim>\<open>JSONDecodeError\<close> only, and the wrapped stream ends having yielded nothing. On the
  lines of text of \<open>plan_stream\<close>, one of them not JSON, every Event is yielded.
\<close>

theorem non_text_event_ends_stream:
  "dict_stream [chat_T1] () =
     [PDict [(''step'', PStr ''plan''), (''data'', PInt 1)], PStr ''not json''] \<and>
   sync_step dict_stream json_loads_examples sink_env (always no_locks) [chat_T1] ()
     = ([Call_json_loads (PDict [(''step'', PStr ''plan''), (''data'', PInt 1)])],
        Some (Exn TypeError [])) \<and>
   yields (fst (sync_step dict_stream json_loads_examples sink_env (always no_locks) [chat_T1] ()))
     = [] \<and>
   yields (fst (sync_step plan_stream json_loads_examples sink_env (always no_locks) [chat_T1] ()))
     = plan_stream [chat_T1] ()"
  by (simp add: wrapper_defs example_defs)

section \<open>Malformed Events\<close>

text \<open>
  The two cases the wrapper recovers from: \<^verbatim>\<open>json.loads\<close> raises \<^verbatim>\<open>JSONDecodeError\<close>, or
  returns a JSON object without one of the two keys. The failure is logged, the Event is
  yielded and the loop goes on with the next Event.
\<close>

lemma malformed_event_logged_and_passed:
  assumes "sync_url server_url = Some url"
  shows
    "(json_loads parse (value_json_str v) = Inl e \<and> class_of e = JSONDecodeError \<longrightarrow>
        for_each parse ws server_url args i (v # vs) =
          after [Call_json_loads (value_json_str v),
                 Log ERROR (Failed_to_parse_JSON e (value_json_str v)), Yield v]
            (for_each parse ws server_url args (Suc i) vs)) \<and>
     (json_loads parse (value_json_str v) = Inr (PDict kvs) \<and>
      (''step'' \<notin> set (map fst kvs) \<or> ''data'' \<notin> set (map fst kvs)) \<longrightarrow>
        for_each parse ws server_url args i (v # vs) =
          after [Call_json_loads (value_json_str v),
                 Log ERROR (Missing_step_or_data (map fst kvs)), Yield v]
            (for_each parse ws server_url args (Suc i) vs))"
  using assms by (auto simp: loop_body_def missing_step_or_data_def after_def)

text \<open>
  C2 requires the same recovery for every JSON value that lacks a \<^verbatim>\<open>step\<close> or a
  \<^verbatim>\<open>data\<close> field, objects or not. The code does not: on the Event \<^verbatim>\<open>data: [1]\<close> the text
  parses to a list, line 49 sends it to the branch that logs and yields, and the log
  message of line 50 calls \<^verbatim>\<open>json_data.keys()\<close>, which raises \<^verbatim>\<open>AttributeError\<close>: nothing is
  logged, the Event is not yielded and the next Event is never reached. On a JSON object
  without \<^verbatim>\<open>data\<close> in the same place, the branch logs, yields and goes on.
\<close>

theorem non_object_json_raises_in_log_branch:
  \<open>for_each json_loads_examples (always no_locks) (Some ''http://sink'') [chat_T1] 0
       [PStr ''data: [1]'', PStr ''not json'']
     = ([Call_json_loads (PStr ''[1]'')], Some (Exn AttributeError [])) \<and>
   for_each json_loads_examples (always no_locks) (Some ''http://sink'') [chat_T1] 0
       [PStr ''data: {"step": "plan"}'', PStr ''not json'']
     = ([Call_json_loads (PStr ''{"step": "plan"}''),
         Log ERROR (Missing_step_or_data [''step'']),
         Yield (PStr ''data: {"step": "plan"}''),
         Call_json_loads (PStr ''not json''),
         Log ERROR (Failed_to_parse_JSON
           (Exn JSONDecodeError ''Expecting value: line 1 column 1 (char 0)'') (PStr ''not json'')),
         Yield (PStr ''not json'')], None)\<close>
  by (simp add: wrapper_defs example_defs)

section \<open>The mirror dispatch\<close>

text \<open>
  C3: with a sink configured, an Event whose candidate text parses to a JSON object with
  keys \<^verbatim>\<open>step\<close> and \<^verbatim>\<open>data\<close>, and for which a truthy task identifier is resolved, causes
  exactly one dispatch, to the sink base URL followed by \<^verbatim>\<open>/chat/steps\<close>, with the body
  made of the task identifier, the two parsed fields and the clock reading in seconds; no
  Event whatever causes more than one dispatch. The candidate text of a \<^verbatim>\<open>str\<close> that
  starts with \<^verbatim>\<open>data: \<close> is the rest of it without the whitespace around it: of
  whitespace \<open>l\<close>, a text \<open>t\<close> that neither starts nor ends with whitespace, and whitespace
  \<open>r\<close>, exactly \<open>t\<close> is left; a \<^verbatim>\<open>str\<close> without the marker is taken as it is.
\<close>

theorem mirrorable_event_dispatched_once:
  assumes "server_url = Some base" and "base \<noteq> []"
    and "json_loads parse (value_json_str v) = Inr (PDict kvs)"
    and "map_of kvs ''step'' = Some s" and "map_of kvs ''data'' = Some d"
    and "resolve_task_id w (chat_of args) = (es, Inr tid)" and "truthy tid"
  shows "dispatches (fst (loop_body parse w server_url args v)) =
           [(base @ ''/chat/steps'',
             \<lparr>task_id = tid, step = s, data = d,
              timestamp = of_int (time_ns w) / 1000000000\<rparr>)] \<and>
         snd (loop_body parse w server_url args v) = None \<and>
         yields (fst (loop_body parse w server_url args v)) = [v] \<and>
         value_json_str (PStr (''data: '' @ t)) = PStr (strip t) \<and>
         length (dispatches (fst (loop_body parse' w' server_url' args' v'))) \<le> 1 \<and>
         ((\<forall>c \<in> set l. isspace c) \<and> (\<forall>c \<in> set r. isspace c) \<and>
          t \<noteq> [] \<and> \<not> isspace (hd t) \<and> \<not> isspace (last t) \<longrightarrow>
            value_json_str (PStr (''data: '' @ l @ t @ r)) = PStr t) \<and>
         (\<not> startswith t ''data: '' \<longrightarrow> value_json_str (PStr t) = PStr t)"
proof -
  have u: "sync_url server_url = Some (base @ ''/chat/steps'')"
    using assms(1,2) by (simp add: sync_url_def)
  have q: "yields es = [] \<and> dispatches es = []"
    using assms(6) resolve_quiet by blast
  have n: "value_json_str (PStr (''data: '' @ x)) = PStr (strip x)" for x
    by (simp add: startswith_def)
  have st: "(\<forall>c \<in> set l. isspace c) \<and> (\<forall>c \<in> set r. isspace c) \<and>
          t \<noteq> [] \<and> \<not> isspace (hd t) \<and> \<not> isspace (last t) \<longrightarrow>
            value_json_str (PStr (''data: '' @ l @ t @ r)) = PStr t"
    using strip_surrounded [of l r t] by (simp only: n) blast
  have ns: "\<not> startswith t ''data: '' \<longrightarrow> value_json_str (PStr t) = PStr t"
    by simp
  have one: "dispatches (fst (loop_body parse w server_url args v)) =
           [(base @ ''/chat/steps'',
             \<lparr>task_id = tid, step = s, data = d,
              timestamp = of_int (time_ns w) / 1000000000\<rparr>)] \<and>
         snd (loop_body parse w server_url args v) = None \<and>
         yields (fst (loop_body parse w server_url args v)) = [v]"
    using loop_body_mirrorable [OF u assms(3,4,5,6)] assms(7) q by simp
  show ?thesis
    using one n [of t] st ns loop_body_dispatch_le1 [of parse' w' server_url' args' v']
    by blast
qed

theorem mirrorable_event_dispatched_once_witness:
  \<open>loop_body json_loads_examples no_locks (Some ''http://sink'') [chat_T1]
       (PStr (''data: {"step": "plan", "data": {"x": 1}}'' @ [CHR 0x0A, CHR 0x0A]))
     = ([Call_json_loads (PStr ''{"step": "plan", "data": {"x": 1}}''),
         Call_get_task_lock (PStr ''P1''),
         Log WARNING (Task_lock_not_found (PStr ''P1'')),
         Create_task ''http://sink/chat/steps''
           \<lparr>task_id = PStr ''T1'', step = PStr ''plan'', data = PDict [(''x'', PInt 1)],
            timestamp = 1700000000500000000 / 1000000000\<rparr>,
         Yield (PStr (''data: {"step": "plan", "data": {"x": 1}}'' @ [CHR 0x0A, CHR 0x0A]))],
        None) \<and>
   dispatches (fst (loop_body json_loads_examples no_locks (Some ''http://sink'') [chat_T1]
       plan_line))
     = [(''http://sink/chat/steps'',
         \<lparr>task_id = PStr ''T1'', step = PStr ''plan'', data = PDict [(''x'', PInt 1)],
          timestamp = 1700000000500000000 / 1000000000\<rparr>)] \<and>
   value_json_str (PStr (''data: '' @ [CHR 0x20, CHR 0x09] @
       ''{"step": "plan", "data": {"x": 1}}'' @ [CHR 0x0D, CHR 0x0A, CHR 0x0A]))
     = PStr ''{"step": "plan", "data": {"x": 1}}''\<close>
proof -
  have r: "resolve_task_id no_locks (chat_of [chat_T1]) =
             ([Call_get_task_lock (PStr ''P1''), Log WARNING (Task_lock_not_found (PStr ''P1''))],
              Inr (PStr ''T1''))"
    by (simp add: resolve_task_id_def hasattr_def getattr_def chat_T1_def no_locks_def)
  have t: "truthy (PStr ''T1'')" and b: "''http://sink'' \<noteq> []"
    by simp_all
  have sp: \<open>(\<forall>c \<in> set [CHR 0x20, CHR 0x09]. isspace c) \<and>
            (\<forall>c \<in> set [CHR 0x0D, CHR 0x0A, CHR 0x0A]. isspace c) \<and>
            ''{"step": "plan", "data": {"x": 1}}'' \<noteq> [] \<and>
            \<not> isspace (hd ''{"step": "plan", "data": {"x": 1}}'') \<and>
            \<not> isspace (last ''{"step": "plan", "data": {"x": 1}}'')\<close>
    by (simp add: isspace_def)
  note inst = mirrorable_event_dispatched_once [OF refl b plan_line_parses plan_fields r t,
      where t = \<open>''{"step": "plan", "data": {"x": 1}}''\<close>
        and l = "[CHR 0x20, CHR 0x09]" and r = "[CHR 0x0D, CHR 0x0A, CHR 0x0A]"]
  have d: \<open>dispatches (fst (loop_body json_loads_examples no_locks (Some ''http://sink'')
              [chat_T1] plan_line))
            = [(''http://sink/chat/steps'',
                \<lparr>task_id = PStr ''T1'', step = PStr ''plan'', data = PDict [(''x'', PInt 1)],
                 timestamp = 1700000000500000000 / 1000000000\<rparr>)]\<close>
    using inst [THEN conjunct1] by (simp add: no_locks_def)
  have s: \<open>value_json_str (PStr (''data: '' @ [CHR 0x20, CHR 0x09] @
              ''{"step": "plan", "data": {"x": 1}}'' @ [CHR 0x0D, CHR 0x0A, CHR 0x0A]))
            = PStr ''{"step": "plan", "data": {"x": 1}}''\<close>
    using inst [THEN conjunct2, THEN conjunct2, THEN conjunct2, THEN conjunct2,
        THEN conjunct2, THEN conjunct1, THEN mp, OF sp] .
  have e: \<open>loop_body json_loads_examples no_locks (Some ''http://sink'') [chat_T1]
       (PStr (''data: {"step": "plan", "data": {"x": 1}}'' @ [CHR 0x0A, CHR 0x0A]))
     = ([Call_json_loads (PStr ''{"step": "plan", "data": {"x": 1}}''),
         Call_get_task_lock (PStr ''P1''),
         Log WARNING (Task_lock_not_found (PStr ''P1'')),
         Create_task ''http://sink/chat/steps''
           \<lparr>task_id = PStr ''T1'', step = PStr ''plan'', data = PDict [(''x'', PInt 1)],
            timestamp = 1700000000500000000 / 1000000000\<rparr>,
         Yield (PStr (''data: {"step": "plan", "data": {"x": 1}}'' @ [CHR 0x0A, CHR 0x0A]))],
        None)\<close>
    by (simp add: wrapper_defs example_defs)
  show ?thesis
    using d s e by blast
qed

section \<open>Resolving the task identifier\<close>

text \<open>
  C4: for an Event that is mirrored and a first positional argument that has a
  \<^verbatim>\<open>task_id\<close> and a \<^verbatim>\<open>project_id\<close>: if a task lock exists for the project and its
  \<^verbatim>\<open>current_task_id\<close> is present and truthy, the dispatch carries the lock's current task
  id; if the lock exists and that attribute is absent or falsy, the dispatch carries the
  argument's own task id; if no lock exists, a warning is logged and the dispatch carries
  the argument's own task id. (An own task id that is falsy gives no dispatch.)
\<close>

theorem task_id_prefers_lock:
  assumes "sync_url server_url = Some url"
    and "json_loads parse (value_json_str v) = Inr (PDict kvs)"
    and "map_of kvs ''step'' = Some s" and "map_of kvs ''data'' = Some d"
    and "args = chat # rest" and "chat ''task_id'' = Some own" and "chat ''project_id'' = Some pid"
  shows
    "(get_task_lock_if_exists w pid = Some task_lock \<and>
      task_lock ''current_task_id'' = Some cur \<and> truthy cur \<longrightarrow>
        loop_body parse w server_url args v =
          ([Call_json_loads (value_json_str v), Call_get_task_lock pid,
            Create_task url \<lparr>task_id = cur, step = s, data = d,
                              timestamp = of_int (time_ns w) / 1000000000\<rparr>,
            Yield v], None)) \<and>
     (get_task_lock_if_exists w pid = Some task_lock \<and>
      (task_lock ''current_task_id'' = None \<or>
       task_lock ''current_task_id'' = Some cur \<and> \<not> truthy cur) \<longrightarrow>
        loop_body parse w server_url args v =
          ([Call_json_loads (value_json_str v), Call_get_task_lock pid] @
           (if truthy own
            then [Create_task url \<lparr>task_id = own, step = s, data = d,
                                    timestamp = of_int (time_ns w) / 1000000000\<rparr>]
            else []) @ [Yield v], None)) \<and>
     (get_task_lock_if_exists w pid = None \<longrightarrow>
        loop_body parse w server_url args v =
          ([Call_json_loads (value_json_str v), Call_get_task_lock pid,
            Log WARNING (Task_lock_not_found pid)] @
           (if truthy own
            then [Create_task url \<lparr>task_id = own, step = s, data = d,
                                    timestamp = of_int (time_ns w) / 1000000000\<rparr>]
            else []) @ [Yield v], None))"
proof -
  have c: "chat_of args = Some chat"
    using assms(5,6) by (simp add: hasattr_def)
  have r1: "get_task_lock_if_exists w pid = Some task_lock \<Longrightarrow>
            task_lock ''current_task_id'' = Some cur \<Longrightarrow> truthy cur \<Longrightarrow>
            resolve_task_id w (chat_of args) = ([Call_get_task_lock pid], Inr cur)"
    using assms(6,7) by (simp add: c resolve_task_id_def getattr_def)
  have r2: "get_task_lock_if_exists w pid = Some task_lock \<Longrightarrow>
            task_lock ''current_task_id'' = None \<or>
            task_lock ''current_task_id'' = Some cur \<and> \<not> truthy cur \<Longrightarrow>
            resolve_task_id w (chat_of args) = ([Call_get_task_lock pid], Inr own)"
    using assms(6,7) by (auto simp: c resolve_task_id_def getattr_def)
  have r3: "get_task_lock_if_exists w pid = None \<Longrightarrow>
            resolve_task_id w (chat_of args) =
              ([Call_get_task_lock pid, Log WARNING (Task_lock_not_found pid)], Inr own)"
    using assms(6,7) by (simp add: c resolve_task_id_def getattr_def)
  note lb = loop_body_mirrorable [OF assms(1,2,3,4)]
  show ?thesis
  proof (intro conjI impI)
    assume "get_task_lock_if_exists w pid = Some task_lock \<and>
      task_lock ''current_task_id'' = Some cur \<and> truthy cur"
    then show "loop_body parse w server_url args v =
          ([Call_json_loads (value_json_str v), Call_get_task_lock pid,
            Create_task url \<lparr>task_id = cur, step = s, data = d,
                              timestamp = of_int (time_ns w) / 1000000000\<rparr>,
            Yield v], None)"
      using lb [OF r1] by simp
  next
    assume "get_task_lock_if_exists w pid = Some task_lock \<and>
      (task_lock ''current_task_id'' = None \<or>
       task_lock ''current_task_id'' = Some cur \<and> \<not> truthy cur)"
    then have "resolve_task_id w (chat_of args) = ([Call_get_task_lock pid], Inr own)"
      using r2 by blast
    from lb [OF this]
    show "loop_body parse w server_url args v =
          ([Call_json_loads (value_json_str v), Call_get_task_lock pid] @
           (if truthy own
            then [Create_task url \<lparr>task_id = own, step = s, data = d,
                                    timestamp = of_int (time_ns w) / 1000000000\<rparr>]
            else []) @ [Yield v], None)"
      by simp
  next
    assume "get_task_lock_if_exists w pid = None"
    from lb [OF r3 [OF this]]
    show "loop_body parse w server_url args v =
          ([Call_json_loads (value_json_str v), Call_get_task_lock pid,
            Log WARNING (Task_lock_not_found pid)] @
           (if truthy own
            then [Create_task url \<lparr>task_id = own, step = s, data = d,
                                    timestamp = of_int (time_ns w) / 1000000000\<rparr>]
            else []) @ [Yield v], None)"
      by simp
  qed
qed

theorem task_id_prefers_lock_witness:
  \<open>loop_body json_loads_examples lock_T2 (Some ''http://sink'') [chat_T1]
       (PStr ''data: {"step": "plan", "data": {"x": 1}}'')
     = ([Call_json_loads (PStr ''{"step": "plan", "data": {"x": 1}}''),
         Call_get_task_lock (PStr ''P1''),
         Create_task ''http://sink/chat/steps''
           \<lparr>task_id = PStr ''T2'', step = PStr ''plan'', data = PDict [(''x'', PInt 1)],
            timestamp = 1700000000500000000 / 1000000000\<rparr>,
         Yield (PStr ''data: {"step": "plan", "data": {"x": 1}}'')], None) \<and>
   loop_body json_loads_examples lock_idle (Some ''http://sink'') [chat_T1]
       (PStr ''data: {"step": "plan", "data": {"x": 1}}'')
     = ([Call_json_loads (PStr ''{"step": "plan", "data": {"x": 1}}''),
         Call_get_task_lock (PStr ''P1''),
         Create_task ''http://sink/chat/steps''
           \<lparr>task_id = PStr ''T1'', step = PStr ''plan'', data = PDict [(''x'', PInt 1)],
            timestamp = 1700000000500000000 / 1000000000\<rparr>,
         Yield (PStr ''data: {"step": "plan", "data": {"x": 1}}'')], None) \<and>
   loop_body json_loads_examples no_locks (Some ''http://sink'') [chat_T1]
       (PStr ''data: {"step": "plan", "data": {"x": 1}}'')
     = ([Call_json_loads (PStr ''{"step": "plan", "data": {"x": 1}}''),
         Call_get_task_lock (PStr ''P1''),
         Log WARNING (Task_lock_not_found (PStr ''P1'')),
         Create_task ''http://sink/chat/steps''
           \<lparr>task_id = PStr ''T1'', step = PStr ''plan'', data = PDict [(''x'', PInt 1)],
            timestamp = 1700000000500000000 / 1000000000\<rparr>,
         Yield (PStr ''data: {"step": "plan", "data": {"x": 1}}'')], None)\<close>
proof -
  have ct: "chat_T1 ''task_id'' = Some (PStr ''T1'')"
    and cp: "chat_T1 ''project_id'' = Some (PStr ''P1'')"
    by (simp_all add: chat_T1_def)
  note inst = task_id_prefers_lock [OF sink_url plan_event_parses plan_fields refl ct cp]
  have l1: "get_task_lock_if_exists lock_T2 (PStr ''P1'') =
              Some [''current_task_id'' \<mapsto> PStr ''T2''] \<and>
            [''current_task_id'' \<mapsto> PStr ''T2''] ''current_task_id'' = Some (PStr ''T2'') \<and>
            truthy (PStr ''T2'')"
    by (simp add: lock_T2_def)
  have l2: "get_task_lock_if_exists lock_idle (PStr ''P1'') =
              Some [''current_task_id'' \<mapsto> PStr []] \<and>
            ([''current_task_id'' \<mapsto> PStr []] ''current_task_id'' = None \<or>
             [''current_task_id'' \<mapsto> PStr []] ''current_task_id'' = Some (PStr []) \<and>
             \<not> truthy (PStr []))"
    by (simp add: lock_idle_def)
  have l3: "get_task_lock_if_exists no_locks (PStr ''P1'') = None"
    by (simp add: no_locks_def)
  note a = inst [THEN conjunct1, THEN mp, OF l1]
  note b = inst [THEN conjunct2, THEN conjunct1, THEN mp, OF l2]
  note c = inst [THEN conjunct2, THEN conjunct2, THEN mp, OF l3]
  show ?thesis
    unfolding a b c
    by (simp add: startswith_def strip_def isspace_def lock_T2_def lock_idle_def no_locks_def)
qed

text \<open>
  C10: for an Event whose JSON passed the check of line 49 and whose resolved task
  identifier is falsy (the empty string of a source with no own task id, or \<^verbatim>\<open>None\<close>
  when there is no correlation source), nothing is dispatched and the Event is yielded;
  a dispatch implies a truthy task identifier.
\<close>

theorem falsy_task_id_skips_dispatch:
  assumes "sync_url server_url = Some url"
    and "json_loads parse (value_json_str v) = Inr json_data"
    and "missing_step_or_data json_data = Inr False"
    and "resolve_task_id w (chat_of args) = (es, Inr tid)"
  shows
    "(\<not> truthy tid \<longrightarrow>
        loop_body parse w server_url args v =
          (Call_json_loads (value_json_str v) # es @ [Yield v], None) \<and>
        dispatches (fst (loop_body parse w server_url args v)) = []) \<and>
     (dispatches (fst (loop_body parse w server_url args v)) \<noteq> [] \<longrightarrow> truthy tid) \<and>
     (chat_of args = None \<longrightarrow> tid = PNone)"
proof -
  have q: "dispatches es = []"
    using assms(4) resolve_quiet by blast
  have f: "\<not> truthy tid \<Longrightarrow>
           loop_body parse w server_url args v =
             (Call_json_loads (value_json_str v) # es @ [Yield v], None)"
    using assms by (simp add: loop_body_def correlate_and_mirror_def mirror_def after_def)
  have n: "chat_of args = None \<Longrightarrow> tid = PNone"
    using assms(4) by (simp add: resolve_task_id_def)
  have g: "\<not> truthy tid \<Longrightarrow> dispatches (fst (loop_body parse w server_url args v)) = []"
    using f q by simp
  show ?thesis
    using f g n by blast
qed

theorem falsy_task_id_skips_dispatch_witness:
  \<open>loop_body json_loads_examples no_locks (Some ''http://sink'') [anonymous_chat]
       (PStr ''data: {"step": "plan", "data": {"x": 1}}'')
     = ([Call_json_loads (PStr ''{"step": "plan", "data": {"x": 1}}''),
         Call_get_task_lock (PStr ''P1''),
         Log WARNING (Task_lock_not_found (PStr ''P1'')),
         Yield (PStr ''data: {"step": "plan", "data": {"x": 1}}'')], None) \<and>
   loop_body json_loads_examples lock_idle (Some ''http://sink'') [anonymous_chat]
       (PStr ''data: {"step": "plan", "data": {"x": 1}}'')
     = ([Call_json_loads (PStr ''{"step": "plan", "data": {"x": 1}}''),
         Call_get_task_lock (PStr ''P1''),
         Yield (PStr ''data: {"step": "plan", "data": {"x": 1}}'')], None) \<and>
   loop_body json_loads_examples lock_T2 (Some ''http://sink'') []
       (PStr ''data: {"step": "plan", "data": {"x": 1}}'')
     = ([Call_json_loads (PStr ''{"step": "plan", "data": {"x": 1}}''),
         Yield (PStr ''data: {"step": "plan", "data": {"x": 1}}'')], None)\<close>
proof -
  have m: "missing_step_or_data
             (PDict [(''step'', PStr ''plan''), (''data'', PDict [(''x'', PInt 1)])]) = Inr False"
    by (simp add: missing_step_or_data_def)
  have r1: "resolve_task_id no_locks (chat_of [anonymous_chat]) =
              ([Call_get_task_lock (PStr ''P1''), Log WARNING (Task_lock_not_found (PStr ''P1''))],
               Inr (PStr []))"
    by (simp add: resolve_task_id_def hasattr_def getattr_def anonymous_chat_def no_locks_def)
  have r2: "resolve_task_id lock_idle (chat_of [anonymous_chat]) =
              ([Call_get_task_lock (PStr ''P1'')], Inr (PStr []))"
    by (simp add: resolve_task_id_def hasattr_def getattr_def anonymous_chat_def lock_idle_def)
  have r3: "resolve_task_id lock_T2 (chat_of []) = ([], Inr PNone)"
    by (simp add: resolve_task_id_def)
  have f1: "\<not> truthy (PStr [])" and f2: "\<not> truthy PNone"
    by simp_all
  note a = falsy_task_id_skips_dispatch [OF sink_url plan_event_parses m r1,
      THEN conjunct1, THEN mp, OF f1, THEN conjunct1]
  note b = falsy_task_id_skips_dispatch [OF sink_url plan_event_parses m r2,
      THEN conjunct1, THEN mp, OF f1, THEN conjunct1]
  note c = falsy_task_id_skips_dispatch [OF sink_url plan_event_parses m r3,
      THEN conjunct1, THEN mp, OF f2, THEN conjunct1]
  show ?thesis
    unfolding a b c by (simp add: startswith_def strip_def isspace_def)
qed

section \<open>The correlation source\<close>

text \<open>
  C7 requires that a first positional argument with only one of \<^verbatim>\<open>task_id\<close> and
  \<^verbatim>\<open>project_id\<close> is not taken as the correlation source and that the Event is yielded
  without an attribute error. The code does not: line 55 tests \<^verbatim>\<open>task_id\<close> alone, so an
  argument with a \<^verbatim>\<open>task_id\<close> and no \<^verbatim>\<open>project_id\<close> is taken as the source, and line 59
  reads its \<^verbatim>\<open>project_id\<close> and raises \<^verbatim>\<open>AttributeError\<close>; the Event is not yielded and
  the stream ends. An argument with a \<^verbatim>\<open>project_id\<close> and no \<^verbatim>\<open>task_id\<close> is not the
  source, and the Event is yielded.
\<close>

theorem task_id_without_project_id_raises:
  \<open>chat_of [task_only] = Some task_only \<and>
   for_each json_loads_examples (always no_locks) (Some ''http://sink'') [task_only] 0
       [PStr ''data: {"step": "plan", "data": {"x": 1}}'', PStr ''not json'']
     = ([Call_json_loads (PStr ''{"step": "plan", "data": {"x": 1}}'')],
        Some (Exn AttributeError [])) \<and>
   chat_of [project_only] = None \<and>
   for_each json_loads_examples (always no_locks) (Some ''http://sink'') [project_only] 0
       [PStr ''data: {"step": "plan", "data": {"x": 1}}'']
     = ([Call_json_loads (PStr ''{"step": "plan", "data": {"x": 1}}''),
         Yield (PStr ''data: {"step": "plan", "data": {"x": 1}}'')], None)\<close>
  by (simp add: wrapper_defs example_defs)

section \<open>Sink failures\<close>




section \<open>The sink configuration\<close>

text \<open>
  C6: when \<^verbatim>\<open>SERVER_URL\<close> is unset or empty, the loop body does nothing but yield the
  Event, and the whole run of the wrapper is the Events of the unwrapped stream, each
  yielded in turn: no call of \<^verbatim>\<open>json.loads\<close>, no task-lock lookup, no log record, no
  dispatch.
\<close>

theorem no_sink_pure_pass_through:
  "env ''SERVER_URL'' = None \<or> env ''SERVER_URL'' = Some [] \<Longrightarrow>
   loop_body parse w (env ''SERVER_URL'') args v = ([Yield v], None) \<and>
   sync_step func parse env ws args kwargs = (map Yield (func args kwargs), None) \<and>
   yields (fst (sync_step func parse env ws args kwargs)) = func args kwargs"
proof -
  assume "env ''SERVER_URL'' = None \<or> env ''SERVER_URL'' = Some []"
  then have n: "sync_url (env ''SERVER_URL'') = None"
    by (auto simp: sync_url_def)
  have y: "yields (map Yield xs) = xs" for xs
    by (induction xs) simp_all
  show ?thesis
    using n by (simp add: loop_body_no_sink for_each_no_sink sync_step_def wrapper_def y)
qed

theorem no_sink_pure_pass_through_witness:
  "sync_step dict_stream json_loads_examples no_sink_env (always lock_T2) [chat_T1] ()
     = ([Yield (PDict [(''step'', PStr ''plan''), (''data'', PInt 1)]), Yield (PStr ''not json'')],
        None)"
proof -
  have "no_sink_env ''SERVER_URL'' = None \<or> no_sink_env ''SERVER_URL'' = Some []"
    by (simp add: no_sink_env_def)
  then show ?thesis
    using no_sink_pure_pass_through
      [where env = no_sink_env and func = dict_stream and parse = json_loads_examples
        and ws = "always lock_T2" and args = "[chat_T1]" and kwargs = "()"]
    by (simp add: dict_stream_def)
qed

text \<open>
  C8, as stated, fails: the decorator reads no configuration; \<^verbatim>\<open>wrapper\<close> reads
  \<^verbatim>\<open>SERVER_URL\<close> each time it is invoked. The same wrapped function mirrors when invoked
  under a configuration with a sink and passes through when invoked under one without.
\<close>

theorem sink_follows_configuration_counterexample:
  "sync_step plan_stream json_loads_examples sink_env (always no_locks) [chat_T1] ()
     \<noteq> sync_step plan_stream json_loads_examples no_sink_env (always no_locks) [chat_T1] ()"
  by (simp add: wrapper_defs example_defs)

text \<open>
  C8, as amended: the sink base URL is read from the configuration once per invocation of
  the wrapped function, when \<^verbatim>\<open>wrapper\<close> starts running and before the first Event, and
  the value read then serves every Event of the invocation: two invocations that read the
  same \<^verbatim>\<open>SERVER_URL\<close> at their start, with the same task locks and clock, do the same,
  whatever the configuration becomes while their Events are processed.
\<close>

theorem sink_read_once_per_invocation:
  assumes "env' ''SERVER_URL'' = env ''SERVER_URL''"
    and "\<forall>i. get_task_lock_if_exists (ws' i) = get_task_lock_if_exists (ws i) \<and>
             time_ns (ws' i) = time_ns (ws i)"
  shows "sync_step func parse env' ws' args kwargs = sync_step func parse env ws args kwargs"
  using assms for_each_cong [of ws' ws parse "env ''SERVER_URL''" args 0 "func args kwargs"]
  by (simp add: sync_step_def wrapper_def)

theorem sink_read_once_per_invocation_witness:
  "sync_step plan_stream json_loads_examples sink_env (always sink_removed) [chat_T1] ()
     = sync_step plan_stream json_loads_examples sink_env (always no_locks) [chat_T1] () \<and>
   environment (always sink_removed 0) ''SERVER_URL'' = None \<and>
   environment (always no_locks 0) ''SERVER_URL'' = Some ''http://sink'' \<and>
   dispatches (fst (sync_step plan_stream json_loads_examples sink_env (always sink_removed)
       [chat_T1] ()))
     = [(''http://sink/chat/steps'', plan_payload)]"
proof -
  have a: "\<forall>i. get_task_lock_if_exists (always sink_removed i) =
                 get_task_lock_if_exists (always no_locks i) \<and>
               time_ns (always sink_removed i) = time_ns (always no_locks i)"
    by (simp add: always_def sink_removed_def no_locks_def)
  have e: "sync_step plan_stream json_loads_examples sink_env (always sink_removed) [chat_T1] ()
     = sync_step plan_stream json_loads_examples sink_env (always no_locks) [chat_T1] ()"
    using sink_read_once_per_invocation [OF refl a] .
  have d: "dispatches (fst (sync_step plan_stream json_loads_examples sink_env (always no_locks)
             [chat_T1] ())) = [(''http://sink/chat/steps'', plan_payload)]"
    by (simp add: wrapper_defs example_defs)
  show ?thesis
    using e d by (simp add: always_def sink_removed_def no_locks_def sink_env_def no_sink_env_def)
qed

section \<open>The tracing shim\<close>

text \<open>
  C9: when tracing is disabled (\<^verbatim>\<open>traceroot\<close> is not importable, or its \<^verbatim>\<open>init()\<close> is
  falsy), \<^verbatim>\<open>trace(*args, **kwargs)(func)\<close> is \<^verbatim>\<open>func\<close> itself, for all decorator arguments
  and every function.
\<close>

theorem trace_is_noop_when_disabled:
  "\<not> is_enabled TRACEROOT_AVAILABLE init_ok \<Longrightarrow>
   trace TRACEROOT_AVAILABLE init_ok traceroot_trace args kwargs func = func"
  by (auto simp: is_enabled_def trace_def)

theorem trace_is_noop_when_disabled_witness:
  "trace True False (\<lambda>args kwargs func. Suc \<circ> func) ''span'' () Suc = Suc \<and>
   trace False True (\<lambda>args kwargs func. Suc \<circ> func) ''span'' () Suc = Suc"
proof -
  have a: "\<not> is_enabled True False" and b: "\<not> is_enabled False True"
    by (simp_all add: is_enabled_def)
  show ?thesis
    using
      trace_is_noop_when_disabled
        [OF a, of "\<lambda>args kwargs func. Suc \<circ> func" "''span''" "()" Suc]
      trace_is_noop_when_disabled
        [OF b, of "\<lambda>args kwargs func. Suc \<circ> func" "''span''" "()" Suc]
    by simp
qed

end
